theory Spec2Isabelle
  imports Main "HOL-Library.AList" "HOL-Library.Multiset"
begin

section \<open>Data model (pkg/signaling: message.go, client.go, room.go, hub.go)\<close>

text \<open>
  The \<open>Data\<close> field of a message is a Go \<open>map[string]interface{}\<close>. The relay itself
  stores strings, booleans and string slices in it; whatever else a peer sends is opaque to
  the relay and kept as \<open>JOther\<close>. A Go map literal is written as an association list.
\<close>

datatype jvalue = JString string | JBool bool | JStrings "string list" | JOther string

record Message =
  Type :: string
  From :: string
  To :: string
  Data :: "(string \<times> jvalue) list"
  IsHost :: bool

text \<open>
  A buffered channel of messages: the pending messages in arrival order, the capacity given
  to \<open>make\<close>, and whether \<open>close\<close> has been called. A nil channel is \<open>None\<close> at the
  field that holds it.
\<close>

record chan =
  buf :: "Message list"
  cap :: nat
  chclosed :: bool

definition make_chan :: "nat \<Rightarrow> chan" where
  "make_chan n = \<lparr>buf = [], cap = n, chclosed = False\<rparr>"

text \<open>
  \<open>sync.Mutex\<close> is a flag: Go's mutex has no owner and is not reentrant, so \<open>Lock\<close> on a
  mutex that is held waits until some goroutine unlocks it, also when the holder is the
  caller itself. \<open>sync.RWMutex\<close> is a writer flag and a count of readers.
\<close>

record RWMutex =
  writer :: bool
  readers :: nat

definition rw_free :: RWMutex where
  "rw_free = \<lparr>writer = False, readers = 0\<rparr>"

text \<open>
  Pointers are addresses (\<open>nat\<close>) into a heap that holds an object at every address;
  a pointer that may be nil is an \<open>option\<close>. The field \<open>conn\<close> is \<open>None\<close> for a nil
  connection, \<open>Some True\<close> for an open one and \<open>Some False\<close> once closed. The field
  \<open>closedOnce\<close> of the source is never used there and is left out.
\<close>

record Client =
  ID :: string
  Room :: "nat option"
  conn :: "bool option"
  send :: "chan option"
  hub :: "nat option"
  isHost :: bool
  closed :: bool
  mutex :: bool

record Room =
  ID :: string
  clients :: "(string \<times> nat) list"
  clientMutex :: RWMutex
  broadcast :: chan
  hostID :: string

record Hub =
  rooms :: "(string \<times> nat) list"
  roomsMutex :: RWMutex

record world =
  clientH :: "nat \<Rightarrow> Client"
  roomH :: "nat \<Rightarrow> Room"
  hubH :: "nat \<Rightarrow> Hub"

text \<open>
  Go leaves the order in which \<open>range\<close> visits a map unspecified. Every function that
  ranges over a map takes that order as a parameter: a function that rearranges the entries.
\<close>

type_synonym range_order = "(string \<times> nat) list \<Rightarrow> (string \<times> nat) list"

definition order_ok :: "range_order \<Rightarrow> bool" where
  "order_ok ord \<longleftrightarrow> (\<forall>m. mset (ord m) = mset m)"

definition mapOrder :: range_order where
  "mapOrder m = m"

section \<open>Calls that may not return\<close>

text \<open>
  A call either returns a value or stops: the goroutine blocks at \<open>Lock\<close>/\<open>RLock\<close> on a
  mutex that is held, blocks at a send on a full channel, or panics (nil dereference,
  send on or close of a closed or nil channel). The world at the point where it stopped is
  kept. The model runs one call at a time from a given world; when every mutex is free at
  entry, a mutex found held inside the call is held by the call itself, and the goroutine
  never resumes.
\<close>

datatype stop = BlockedOnMutex | BlockedOnChan | NilPanic | ChanPanic

datatype 'a outcome = Ret 'a | Stuck stop

type_synonym 'a prog = "world \<Rightarrow> 'a outcome \<times> world"

definition ret :: "'a \<Rightarrow> 'a prog" where
  "ret x w = (Ret x, w)"

definition stuck :: "stop \<Rightarrow> 'a prog" where
  "stuck s w = (Stuck s, w)"

definition andThen :: "'a prog \<Rightarrow> ('a \<Rightarrow> 'b prog) \<Rightarrow> 'b prog" where
  "andThen m f w = (case m w of (Ret x, w') \<Rightarrow> f x w' | (Stuck s, w') \<Rightarrow> (Stuck s, w'))"

fun seqs :: "unit prog list \<Rightarrow> unit prog" where
  "seqs [] = ret ()"
| "seqs (p # ps) = andThen p (\<lambda>_. seqs ps)"

fun forEach :: "('a \<Rightarrow> unit prog) \<Rightarrow> 'a list \<Rightarrow> unit prog" where
  "forEach f [] = ret ()"
| "forEach f (x # xs) = andThen (f x) (\<lambda>_. forEach f xs)"

definition readClient :: "nat \<Rightarrow> Client prog" where
  "readClient c w = (Ret (clientH w c), w)"

definition updClient :: "nat \<Rightarrow> (Client \<Rightarrow> Client) \<Rightarrow> unit prog" where
  "updClient c f w = (Ret (), w\<lparr>clientH := (clientH w)(c := f (clientH w c))\<rparr>)"

definition readRoom :: "nat \<Rightarrow> Room prog" where
  "readRoom r w = (Ret (roomH w r), w)"

definition updRoom :: "nat \<Rightarrow> (Room \<Rightarrow> Room) \<Rightarrow> unit prog" where
  "updRoom r f w = (Ret (), w\<lparr>roomH := (roomH w)(r := f (roomH w r))\<rparr>)"

definition readHub :: "nat \<Rightarrow> Hub prog" where
  "readHub h w = (Ret (hubH w h), w)"

definition updHub :: "nat \<Rightarrow> (Hub \<Rightarrow> Hub) \<Rightarrow> unit prog" where
  "updHub h f w = (Ret (), w\<lparr>hubH := (hubH w)(h := f (hubH w h))\<rparr>)"

subsection \<open>Locks\<close>

text \<open>
  Every \<open>Unlock\<close> and \<open>RUnlock\<close> of the source is the deferred (or closing) partner of a
  \<open>Lock\<close> or \<open>RLock\<close> taken earlier in the same function, so the run-time error for
  unlocking a free mutex cannot arise and is not modelled.
\<close>

definition Lock :: "nat \<Rightarrow> unit prog" where
  "Lock c = andThen (readClient c) (\<lambda>cl.
     if mutex cl then stuck BlockedOnMutex
     else updClient c (\<lambda>x. x\<lparr>mutex := True\<rparr>))"

definition Unlock :: "nat \<Rightarrow> unit prog" where
  "Unlock c = updClient c (\<lambda>x. x\<lparr>mutex := False\<rparr>)"

definition Room_Lock :: "nat \<Rightarrow> unit prog" where
  "Room_Lock r = andThen (readRoom r) (\<lambda>rm.
     if writer (clientMutex rm) \<or> readers (clientMutex rm) > 0 then stuck BlockedOnMutex
     else updRoom r (\<lambda>x. x\<lparr>clientMutex := (clientMutex x)\<lparr>writer := True\<rparr>\<rparr>))"

definition Room_Unlock :: "nat \<Rightarrow> unit prog" where
  "Room_Unlock r = updRoom r (\<lambda>x. x\<lparr>clientMutex := (clientMutex x)\<lparr>writer := False\<rparr>\<rparr>)"

definition Room_RLock :: "nat \<Rightarrow> unit prog" where
  "Room_RLock r = andThen (readRoom r) (\<lambda>rm.
     if writer (clientMutex rm) then stuck BlockedOnMutex
     else updRoom r (\<lambda>x. x\<lparr>clientMutex := (clientMutex x)\<lparr>readers := Suc (readers (clientMutex x))\<rparr>\<rparr>))"

definition Room_RUnlock :: "nat \<Rightarrow> unit prog" where
  "Room_RUnlock r =
     updRoom r (\<lambda>x. x\<lparr>clientMutex := (clientMutex x)\<lparr>readers := readers (clientMutex x) - 1\<rparr>\<rparr>)"

definition Hub_Lock :: "nat \<Rightarrow> unit prog" where
  "Hub_Lock h = andThen (readHub h) (\<lambda>hb.
     if writer (roomsMutex hb) \<or> readers (roomsMutex hb) > 0 then stuck BlockedOnMutex
     else updHub h (\<lambda>x. x\<lparr>roomsMutex := (roomsMutex x)\<lparr>writer := True\<rparr>\<rparr>))"

definition Hub_Unlock :: "nat \<Rightarrow> unit prog" where
  "Hub_Unlock h = updHub h (\<lambda>x. x\<lparr>roomsMutex := (roomsMutex x)\<lparr>writer := False\<rparr>\<rparr>)"

definition Hub_RLock :: "nat \<Rightarrow> unit prog" where
  "Hub_RLock h = andThen (readHub h) (\<lambda>hb.
     if writer (roomsMutex hb) then stuck BlockedOnMutex
     else updHub h (\<lambda>x. x\<lparr>roomsMutex := (roomsMutex x)\<lparr>readers := Suc (readers (roomsMutex x))\<rparr>\<rparr>))"

definition Hub_RUnlock :: "nat \<Rightarrow> unit prog" where
  "Hub_RUnlock h =
     updHub h (\<lambda>x. x\<lparr>roomsMutex := (roomsMutex x)\<lparr>readers := readers (roomsMutex x) - 1\<rparr>\<rparr>)"

subsection \<open>Channel operations\<close>

text \<open>\<open>r.broadcast <- msg\<close>: a blocking send on the room's buffered channel.\<close>

definition broadcast_send :: "nat \<Rightarrow> Message \<Rightarrow> unit prog" where
  "broadcast_send r msg = andThen (readRoom r) (\<lambda>rm.
     if chclosed (broadcast rm) then stuck ChanPanic
     else if length (buf (broadcast rm)) < cap (broadcast rm)
     then updRoom r (\<lambda>x. x\<lparr>broadcast := (broadcast x)\<lparr>buf := buf (broadcast x) @ [msg]\<rparr>\<rparr>)
     else stuck BlockedOnChan)"

text \<open>\<open>close(c.send)\<close> panics on a nil channel and on a channel that is already closed.\<close>

definition close_send :: "nat \<Rightarrow> unit prog" where
  "close_send c = andThen (readClient c) (\<lambda>cl.
     case send cl of
       None \<Rightarrow> stuck ChanPanic
     | Some ch \<Rightarrow>
         if chclosed ch then stuck ChanPanic
         else updClient c (\<lambda>x. x\<lparr>send := Some (ch\<lparr>chclosed := True\<rparr>)\<rparr>))"

text \<open>\<open>c.conn.Close()\<close> dereferences the connection.\<close>

definition conn_Close :: "nat \<Rightarrow> unit prog" where
  "conn_Close c = andThen (readClient c) (\<lambda>cl.
     case conn cl of
       None \<Rightarrow> stuck NilPanic
     | Some _ \<Rightarrow> updClient c (\<lambda>x. x\<lparr>conn := Some False\<rparr>))"

section \<open>Room (room.go)\<close>

definition NewRoom :: "string \<Rightarrow> Room" where
  "NewRoom rid = \<lparr>Room.ID = rid, clients = [], clientMutex = rw_free,
                 broadcast = make_chan 100, hostID = ''''\<rparr>"

text \<open>
  \<open>Broadcast\<close> takes the read lock to compute the list of recipients it logs (the only use
  of \<open>excludeClientID\<close>), releases it and sends the message on the broadcast channel.
  Logging is not part of the model.
\<close>

definition Broadcast :: "nat \<Rightarrow> Message \<Rightarrow> string \<Rightarrow> unit prog" where
  "Broadcast r msg excludeClientID =
     seqs [Room_RLock r, Room_RUnlock r, broadcast_send r msg]"

definition IsEmpty :: "nat \<Rightarrow> bool prog" where
  "IsEmpty r =
     andThen (Room_RLock r) (\<lambda>_.
     andThen (readRoom r) (\<lambda>rm.
     andThen (Room_RUnlock r) (\<lambda>_.
     ret (length (clients rm) = 0))))"

definition GetClients :: "range_order \<Rightarrow> nat \<Rightarrow> nat list prog" where
  "GetClients ord r =
     andThen (Room_RLock r) (\<lambda>_.
     andThen (readRoom r) (\<lambda>rm.
     andThen (Room_RUnlock r) (\<lambda>_.
     ret (map snd (ord (clients rm))))))"

definition GetHost :: "nat \<Rightarrow> string prog" where
  "GetHost r =
     andThen (Room_RLock r) (\<lambda>_.
     andThen (readRoom r) (\<lambda>rm.
     andThen (Room_RUnlock r) (\<lambda>_.
     ret (hostID rm))))"

definition host_change_new :: "string \<Rightarrow> Message" where
  "host_change_new h =
     \<lparr>Type = ''host-change'', From = '''', To = '''',
      Data = [(''hostId'', JString h)], IsHost = False\<rparr>"

text \<open>
  \<open>RemoveClient\<close>: the loop \<open>for newHostID := range r.clients { ...; break }\<close> runs its body
  for the first entry the range visits.
\<close>

definition RemoveClient :: "range_order \<Rightarrow> nat \<Rightarrow> string \<Rightarrow> unit prog" where
  "RemoveClient ord r clientID =
     andThen (Room_Lock r) (\<lambda>_.
     andThen (readRoom r) (\<lambda>rm.
     andThen
       (case map_of (clients rm) clientID of
          None \<Rightarrow> ret ()
        | Some _ \<Rightarrow>
            andThen (updRoom r (\<lambda>x. x\<lparr>clients := AList.delete clientID (clients x)\<rparr>)) (\<lambda>_.
            andThen (readRoom r) (\<lambda>rm'.
              if clientID = hostID rm' \<and> length (clients rm') > 0
              then (case ord (clients rm') of
                      [] \<Rightarrow> ret ()
                    | (newHostID, _) # _ \<Rightarrow>
                        andThen (updRoom r (\<lambda>x. x\<lparr>hostID := newHostID\<rparr>)) (\<lambda>_.
                        broadcast_send r (host_change_new newHostID)))
              else ret ())))
       (\<lambda>_. Room_Unlock r)))"

section \<open>Hub (hub.go)\<close>

definition NewHub :: Hub where
  "NewHub = \<lparr>rooms = [], roomsMutex = rw_free\<rparr>"

definition RemoveRoom :: "nat \<Rightarrow> string \<Rightarrow> unit prog" where
  "RemoveRoom h roomID =
     andThen (Hub_Lock h) (\<lambda>_.
     andThen (readHub h) (\<lambda>hb.
     andThen
       (case map_of (rooms hb) roomID of
          None \<Rightarrow> ret ()
        | Some room \<Rightarrow>
            andThen (IsEmpty room) (\<lambda>e.
              if e then updHub h (\<lambda>x. x\<lparr>rooms := AList.delete roomID (rooms x)\<rparr>)
              else ret ()))
       (\<lambda>_. Hub_Unlock h)))"

definition GetActiveRooms :: "range_order \<Rightarrow> nat \<Rightarrow> string list prog" where
  "GetActiveRooms ord h =
     andThen (Hub_RLock h) (\<lambda>_.
     andThen (readHub h) (\<lambda>hb.
     andThen (Hub_RUnlock h) (\<lambda>_.
     ret (map fst (ord (rooms hb))))))"

section \<open>Client session (client.go)\<close>

definition user_left_msg :: "string \<Rightarrow> Message" where
  "user_left_msg cid =
     \<lparr>Type = ''user-left'', From = cid, To = '''',
      Data = [(''userId'', JString cid)], IsHost = False\<rparr>"

text \<open>
  \<open>Close\<close>: \<open>c.mutex.Lock(); defer c.mutex.Unlock()\<close>, the guard on \<open>c.closed\<close>, then the
  close sequence (\<open>closeSequence\<close>, the statements after the guard). The deferred
  \<open>Unlock\<close> runs after either return. A method call on a nil \<open>*Hub\<close> dereferences it at
  \<open>h.roomsMutex.Lock()\<close>.
\<close>

definition closeSequence :: "range_order \<Rightarrow> nat \<Rightarrow> Client \<Rightarrow> unit prog" where
  "closeSequence ord c cl =
     seqs [
       updClient c (\<lambda>x. x\<lparr>closed := True\<rparr>),
       (case Room cl of
          None \<Rightarrow> ret ()
        | Some r \<Rightarrow> Broadcast r (user_left_msg (Client.ID cl)) ''''),
       close_send c,
       conn_Close c,
       (case Room cl of
          None \<Rightarrow> ret ()
        | Some r \<Rightarrow>
            andThen (RemoveClient ord r (Client.ID cl)) (\<lambda>_.
            andThen (IsEmpty r) (\<lambda>e.
              if e
              then andThen (readRoom r) (\<lambda>rm.
                     case hub cl of
                       None \<Rightarrow> stuck NilPanic
                     | Some h \<Rightarrow> RemoveRoom h (Room.ID rm))
              else ret ())))]"

definition Close :: "range_order \<Rightarrow> nat \<Rightarrow> unit prog" where
  "Close ord c =
     andThen (Lock c) (\<lambda>_.
     andThen (readClient c) (\<lambda>cl.
     andThen (if closed cl then ret () else closeSequence ord c cl) (\<lambda>_.
     Unlock c)))"

text \<open>
  \<open>Send\<close>: \<open>c.mutex.Lock(); defer c.mutex.Unlock()\<close>, the guard on \<open>c.closed\<close>, then a
  \<open>select\<close> with a send case and a \<open>default\<close>. The send case is ready when the channel has
  room (and panics when the channel is closed); a nil or full channel takes \<open>default\<close>,
  which calls \<open>c.Close()\<close> with \<open>c.mutex\<close> still held.
\<close>

definition Send :: "range_order \<Rightarrow> nat \<Rightarrow> Message \<Rightarrow> unit prog" where
  "Send ord c msg =
     andThen (Lock c) (\<lambda>_.
     andThen (readClient c) (\<lambda>cl.
       if closed cl then Unlock c
       else (case send cl of
               None \<Rightarrow> andThen (Close ord c) (\<lambda>_. Unlock c)
             | Some ch \<Rightarrow>
                 if chclosed ch then stuck ChanPanic
                 else if length (buf ch) < cap ch
                 then andThen (updClient c (\<lambda>x. x\<lparr>send := Some (ch\<lparr>buf := buf ch @ [msg]\<rparr>)\<rparr>))
                        (\<lambda>_. Unlock c)
                 else andThen (Close ord c) (\<lambda>_. Unlock c))))"

definition host_status_msg :: "string \<Rightarrow> bool \<Rightarrow> Message" where
  "host_status_msg cid b =
     \<lparr>Type = ''host-status'', From = '''', To = cid,
      Data = [(''isHost'', JBool b)], IsHost = False\<rparr>"

definition host_change_self :: "string \<Rightarrow> bool \<Rightarrow> Message" where
  "host_change_self cid b =
     \<lparr>Type = ''host-change'', From = cid, To = '''',
      Data = [(''hostId'', JString cid), (''isHost'', JBool b)], IsHost = False\<rparr>"

text \<open>
  \<open>(*Client).SetHost\<close>: \<open>c.mutex.Lock(); defer c.mutex.Unlock()\<close>, return when the flag
  already has the value, otherwise set it, \<open>c.Send\<close> the host-status message and
  \<open>c.Room.Broadcast\<close> the host-change message, both with \<open>c.mutex\<close> held.
\<close>

definition Client_SetHost :: "range_order \<Rightarrow> nat \<Rightarrow> bool \<Rightarrow> unit prog" where
  "Client_SetHost ord c b =
     andThen (Lock c) (\<lambda>_.
     andThen (readClient c) (\<lambda>cl.
       if isHost cl = b then Unlock c
       else seqs [
         updClient c (\<lambda>x. x\<lparr>isHost := b\<rparr>),
         Send ord c (host_status_msg (Client.ID cl) b),
         (case Room cl of
            None \<Rightarrow> stuck NilPanic
          | Some r \<Rightarrow> Broadcast r (host_change_self (Client.ID cl) b) (Client.ID cl)),
         Unlock c]))"

section \<open>Room operations that call into client sessions (room.go)\<close>

definition host_change_msg :: "string \<Rightarrow> bool \<Rightarrow> Message" where
  "host_change_msg h b =
     \<lparr>Type = ''host-change'', From = '''', To = '''',
      Data = [(''hostId'', JString h), (''isHost'', JBool b)], IsHost = False\<rparr>"

definition AddClient :: "range_order \<Rightarrow> nat \<Rightarrow> nat \<Rightarrow> unit prog" where
  "AddClient ord r client =
     andThen (Room_Lock r) (\<lambda>_.
     andThen (readClient client) (\<lambda>cl.
     andThen (updRoom r (\<lambda>x. x\<lparr>clients := AList.update (Client.ID cl) client (clients x)\<rparr>)) (\<lambda>_.
     andThen (readRoom r) (\<lambda>rm.
     andThen
       (if length (clients rm) = 1 \<and> hostID rm = ''''
        then andThen (updRoom r (\<lambda>x. x\<lparr>hostID := Client.ID cl\<rparr>)) (\<lambda>_.
             Client_SetHost ord client True)
        else if hostID rm \<noteq> ''''
        then Send ord client (host_change_msg (hostID rm) False)
        else ret ())
       (\<lambda>_. Room_Unlock r)))))"

definition Room_SetHost :: "range_order \<Rightarrow> nat \<Rightarrow> string \<Rightarrow> bool prog" where
  "Room_SetHost ord r clientID =
     andThen (Room_Lock r) (\<lambda>_.
     andThen (readRoom r) (\<lambda>rm.
       case map_of (clients rm) clientID of
         None \<Rightarrow> andThen (Room_Unlock r) (\<lambda>_. ret False)
       | Some client \<Rightarrow>
           andThen
             (seqs [
                updRoom r (\<lambda>x. x\<lparr>hostID := clientID\<rparr>),
                Client_SetHost ord client True,
                (if hostID rm \<noteq> '''' \<and> hostID rm \<noteq> clientID
                 then (case map_of (clients rm) (hostID rm) of
                         None \<Rightarrow> ret ()
                       | Some prevHostClient \<Rightarrow> Client_SetHost ord prevHostClient False)
                 else ret ()),
                forEach (\<lambda>entry.
                    andThen (readRoom r) (\<lambda>rm'.
                    andThen (readClient (snd entry)) (\<lambda>cl.
                    Send ord (snd entry)
                      (host_change_msg (hostID rm') (Client.ID cl = hostID rm')))))
                  (ord (clients rm)),
                Room_Unlock r])
             (\<lambda>_. ret True)))"

text \<open>
  One iteration of \<open>broadcastLoop\<close>. \<open>broadcastLoop_body\<close> is the body of the loop for the
  message received; \<open>broadcastLoop_iter\<close> receives the oldest message of the channel first
  (and waits when there is none).
\<close>

definition clientsToSend :: "Message \<Rightarrow> (string \<times> nat) list \<Rightarrow> nat list prog" where
  "clientsToSend msg cs w =
     (Ret (filter (\<lambda>client. \<not> (From msg = Client.ID (clientH w client) \<and> From msg \<noteq> ''''))
             (map snd cs)), w)"

definition broadcastLoop_body :: "range_order \<Rightarrow> nat \<Rightarrow> Message \<Rightarrow> unit prog" where
  "broadcastLoop_body ord r msg =
     andThen (Room_RLock r) (\<lambda>_.
     andThen (readRoom r) (\<lambda>rm.
     andThen (clientsToSend msg (ord (clients rm))) (\<lambda>cs.
     andThen (Room_RUnlock r) (\<lambda>_.
     forEach (\<lambda>client. Send ord client msg) cs))))"

definition broadcastLoop_iter :: "range_order \<Rightarrow> nat \<Rightarrow> unit prog" where
  "broadcastLoop_iter ord r =
     andThen (readRoom r) (\<lambda>rm.
       case buf (broadcast rm) of
         [] \<Rightarrow> stuck BlockedOnChan
       | msg # rest \<Rightarrow>
           andThen (updRoom r (\<lambda>x. x\<lparr>broadcast := (broadcast x)\<lparr>buf := rest\<rparr>\<rparr>)) (\<lambda>_.
           broadcastLoop_body ord r msg))"

section \<open>Inbound processing (readPump in client.go)\<close>

definition user_joined_msg :: "string \<Rightarrow> Message" where
  "user_joined_msg cid =
     \<lparr>Type = ''user-joined'', From = cid, To = '''',
      Data = [(''userId'', JString cid)], IsHost = False\<rparr>"

definition user_list_msg :: "string \<Rightarrow> string list \<Rightarrow> Message" where
  "user_list_msg cid users =
     \<lparr>Type = ''user-list'', From = '''', To = cid,
      Data = [(''users'', JStrings users)], IsHost = False\<rparr>"

definition deref :: "nat option \<Rightarrow> nat prog" where
  "deref p = (case p of None \<Rightarrow> stuck NilPanic | Some a \<Rightarrow> ret a)"

definition clientIDs :: "nat list \<Rightarrow> string list prog" where
  "clientIDs cs w = (Ret (map (\<lambda>a. Client.ID (clientH w a)) cs), w)"

text \<open>
  \<open>readPump_dispatch\<close> is what the read loop does with one frame that
  \<open>json.Unmarshal\<close> decoded into \<open>msg\<close>: stamp \<open>msg.From\<close>, then switch on \<open>msg.Type\<close>.
\<close>

definition readPump_dispatch :: "range_order \<Rightarrow> nat \<Rightarrow> Message \<Rightarrow> unit prog" where
  "readPump_dispatch ord c msg0 =
     andThen (readClient c) (\<lambda>cl.
       let msg = msg0\<lparr>From := Client.ID cl\<rparr> in
       if Type msg = ''offer'' \<or> Type msg = ''answer'' \<or> Type msg = ''ice-candidate''
       then andThen (deref (Room cl)) (\<lambda>r. Broadcast r msg (Client.ID cl))
       else if Type msg = ''chat''
       then andThen (deref (Room cl)) (\<lambda>r. Broadcast r msg '''')
       else if Type msg = ''join''
       then andThen (deref (Room cl)) (\<lambda>r.
            andThen (Broadcast r (user_joined_msg (Client.ID cl)) (Client.ID cl)) (\<lambda>_.
            andThen (GetClients ord r) (\<lambda>cs.
            andThen (clientIDs cs) (\<lambda>ids.
            Send ord c (user_list_msg (Client.ID cl) (filter (\<lambda>i. i \<noteq> Client.ID cl) ids))))))
       else ret ())"

section \<open>Sequences of room operations\<close>






text \<open>
  The field \<open>isHost\<close> is unexported; \<open>NewClient\<close> builds sessions with the flag unset, and the
  only assignment to it is in \<open>(*Client).SetHost\<close>, made with \<open>c.mutex\<close> held. In the worlds
  the code produces a session whose host flag is set has its mutex held.
\<close>

definition flags_under_mutex :: "world \<Rightarrow> bool" where
  "flags_under_mutex w \<longleftrightarrow> (\<forall>c. isHost (clientH w c) \<longrightarrow> mutex (clientH w c))"

section \<open>The broadcast loop at work\<close>


section \<open>Sessions able to take a message\<close>

text \<open>
  \<open>receptive\<close>: the session's mutex is free, it is not closed and its outbound channel is
  open with room for one more message. \<open>enqueue\<close> appends a message to the outbound channel.
  \<open>outbox\<close> is the content of the outbound channel.
\<close>

definition receptive :: "Client \<Rightarrow> bool" where
  "receptive cl \<longleftrightarrow> \<not> mutex cl \<and> \<not> closed cl \<and>
     (case send cl of None \<Rightarrow> False | Some ch \<Rightarrow> \<not> chclosed ch \<and> length (buf ch) < cap ch)"


definition outbox :: "Client \<Rightarrow> Message list" where
  "outbox cl = (case send cl of None \<Rightarrow> [] | Some ch \<Rightarrow> buf ch)"



section \<open>Example worlds\<close>

text \<open>
  \<open>session\<close> is the client \<open>NewClient\<close> builds: room and hub set, an open connection, an
  empty outbound channel of capacity 100, not host, not closed.
\<close>

definition session :: "string \<Rightarrow> nat \<Rightarrow> nat \<Rightarrow> Client" where
  "session cid r h =
     \<lparr>Client.ID = cid, Room = Some r, conn = Some True, send = Some (make_chan 100),
      hub = Some h, isHost = False, closed = False, mutex = False\<rparr>"

definition zeroClient :: Client where
  "zeroClient =
     \<lparr>Client.ID = '''', Room = None, conn = None, send = None, hub = None,
      isHost = False, closed = False, mutex = False\<rparr>"

definition blankWorld :: world where
  "blankWorld = \<lparr>clientH = (\<lambda>_. zeroClient), roomH = (\<lambda>_. NewRoom ''''), hubH = (\<lambda>_. NewHub)\<rparr>"

definition chatA :: Message where
  "chatA = \<lparr>Type = ''chat'', From = ''A'', To = '''',
            Data = [(''text'', JOther ''hi'')], IsHost = False\<rparr>"

text \<open>A chat frame as a peer sends it, and an offer frame that names another peer as sender.\<close>

definition chatFrame :: Message where
  "chatFrame = \<lparr>Type = ''chat'', From = '''', To = '''',
                Data = [(''text'', JOther ''hi'')], IsHost = False\<rparr>"

definition offerForged :: Message where
  "offerForged = \<lparr>Type = ''offer'', From = ''B'', To = '''',
                  Data = [(''sdp'', JOther ''v=0'')], IsHost = False\<rparr>"

text \<open>Room \<open>r1\<close> at address 0, just created and registered in the hub; session \<open>A\<close> not yet added.\<close>

definition freshWorld :: world where
  "freshWorld = blankWorld\<lparr>
     clientH := (clientH blankWorld)(0 := session ''A'' 0 0),
     roomH := (roomH blankWorld)(0 := NewRoom ''r1''),
     hubH := (hubH blankWorld)(0 := NewHub\<lparr>rooms := [(''r1'', 0)]\<rparr>)\<rparr>"



text \<open>Room \<open>r1\<close> with the single member \<open>A\<close>, its host.\<close>

definition soloWorld :: world where
  "soloWorld = blankWorld\<lparr>
     clientH := (clientH blankWorld)(0 := (session ''A'' 0 0)\<lparr>isHost := True\<rparr>),
     roomH := (roomH blankWorld)(0 := (NewRoom ''r1'')\<lparr>clients := [(''A'', 0)], hostID := ''A''\<rparr>),
     hubH := (hubH blankWorld)(0 := NewHub\<lparr>rooms := [(''r1'', 0)]\<rparr>)\<rparr>"

text \<open>Room \<open>r1\<close> with members \<open>A\<close> (host) and \<open>B\<close>.\<close>

definition pairWorld :: world where
  "pairWorld = blankWorld\<lparr>
     clientH := (clientH blankWorld)
        (0 := (session ''A'' 0 0)\<lparr>isHost := True\<rparr>, 1 := session ''B'' 0 0),
     roomH := (roomH blankWorld)
        (0 := (NewRoom ''r1'')\<lparr>clients := [(''A'', 0), (''B'', 1)], hostID := ''A''\<rparr>),
     hubH := (hubH blankWorld)(0 := NewHub\<lparr>rooms := [(''r1'', 0)]\<rparr>)\<rparr>"

text \<open>As \<open>soloWorld\<close>, with 100 messages pending in the outbound channel of \<open>A\<close>.\<close>

definition fullWorld :: world where
  "fullWorld = soloWorld\<lparr>
     clientH := (clientH soloWorld)
        (0 := (session ''A'' 0 0)\<lparr>isHost := True,
                send := Some ((make_chan 100)\<lparr>buf := replicate 100 chatA\<rparr>)\<rparr>)\<rparr>"

text \<open>
  \<open>A\<close> sends a chat frame in \<open>pairWorld\<close>; then the broadcast loop of the room runs one
  iteration.
\<close>

definition afterChat :: world where
  "afterChat = snd (readPump_dispatch mapOrder 0 chatFrame pairWorld)"

definition afterChatDelivery :: world where
  "afterChatDelivery = snd (broadcastLoop_iter mapOrder 0 afterChat)"

text \<open>
  Room \<open>r1\<close> with members \<open>A\<close> (host), \<open>B\<close> and \<open>C\<close>; the outbound channel of \<open>B\<close> holds 100
  messages, that of \<open>C\<close> none. \<open>A\<close> is removed; then the broadcast loop runs one iteration.
\<close>

definition trioWorld :: world where
  "trioWorld = blankWorld\<lparr>
     clientH := (clientH blankWorld)
        (0 := (session ''A'' 0 0)\<lparr>isHost := True\<rparr>,
         1 := (session ''B'' 0 0)\<lparr>send := Some ((make_chan 100)\<lparr>buf := replicate 100 chatA\<rparr>)\<rparr>,
         2 := session ''C'' 0 0),
     roomH := (roomH blankWorld)
        (0 := (NewRoom ''r1'')\<lparr>clients := [(''A'', 0), (''B'', 1), (''C'', 2)], hostID := ''A''\<rparr>),
     hubH := (hubH blankWorld)(0 := NewHub\<lparr>rooms := [(''r1'', 0)]\<rparr>)\<rparr>"



section \<open>Auxiliary notions for the proofs\<close>


text \<open>A property of the world that a call keeps, whether it returns or stops.\<close>

definition preserves :: "(world \<Rightarrow> bool) \<Rightarrow> 'a prog \<Rightarrow> bool" where
  "preserves Q p \<longleftrightarrow> (\<forall>w. Q w \<longrightarrow> Q (snd (p w)))"

section \<open>Basic facts\<close>

lemmas prims = ret_def stuck_def andThen_def readClient_def updClient_def readRoom_def updRoom_def
  readHub_def updHub_def Lock_def Unlock_def Room_Lock_def Room_Unlock_def Room_RLock_def
  Room_RUnlock_def Hub_Lock_def Hub_Unlock_def Hub_RLock_def Hub_RUnlock_def broadcast_send_def
  close_send_def conn_Close_def deref_def clientIDs_def clientsToSend_def

lemmas examples = blankWorld_def freshWorld_def soloWorld_def pairWorld_def trioWorld_def
  fullWorld_def session_def zeroClient_def NewRoom_def NewHub_def make_chan_def rw_free_def
  chatA_def chatFrame_def offerForged_def mapOrder_def

lemma andThen_Ret:
  "andThen m f w = (Ret y, w') \<Longrightarrow> \<exists>x w1. m w = (Ret x, w1) \<and> f x w1 = (Ret y, w')"
  by (auto simp: andThen_def split: prod.splits outcome.splits)

lemma snd_andThen:
  "snd (andThen m f w) = (case m w of (Ret x, w1) \<Rightarrow> snd (f x w1) | (Stuck s, w1) \<Rightarrow> w1)"
  by (auto simp: andThen_def split: prod.splits outcome.splits)

lemma order_ok_mapOrder: "order_ok mapOrder"
  by (simp add: order_ok_def mapOrder_def)

lemma order_ok_set: "order_ok ord \<Longrightarrow> set (ord m) = set m"
  unfolding order_ok_def by (metis mset_eq_setD)



subsection \<open>Calls made while the session's mutex is held\<close>

text \<open>
  \<open>Close\<close> and \<open>Send\<close> start with \<open>c.mutex.Lock()\<close>. Called with the mutex held they stop
  there and change nothing.
\<close>

lemma Close_held: "mutex (clientH w c) \<Longrightarrow> Close ord c w = (Stuck BlockedOnMutex, w)"
  by (simp add: Close_def prims)

lemma Send_held: "mutex (clientH w c) \<Longrightarrow> Send ord c msg w = (Stuck BlockedOnMutex, w)"
  by (simp add: Send_def prims)

text \<open>
  \<open>Send\<close> holds the mutex when it reaches \<open>c.Close()\<close>, so the close sequence never runs
  from there: \<open>Send\<close> changes no room and no hub.
\<close>

lemma Send_roomH: "roomH (snd (Send ord c msg w)) = roomH w"
  by (simp add: Send_def prims Close_held split: option.splits)

lemma Send_hubH: "hubH (snd (Send ord c msg w)) = hubH w"
  by (simp add: Send_def prims Close_held split: option.splits)


text \<open>
  A session that is not closed and whose outbound channel is full: \<open>Send\<close> takes the
  \<open>default\<close> branch and stops at the \<open>Lock\<close> inside \<open>Close\<close>, holding the mutex, with the
  closed flag as it was.
\<close>

lemma Send_full:
  assumes "\<not> mutex (clientH w c)" "\<not> closed (clientH w c)" "send (clientH w c) = Some ch"
    "\<not> chclosed ch" "cap ch \<le> length (buf ch)"
  shows "Send ord c msg w =
     (Stuck BlockedOnMutex, w\<lparr>clientH := (clientH w)(c := (clientH w c)\<lparr>mutex := True\<rparr>)\<rparr>)"
  using assms by (simp add: Send_def Close_def prims)

text \<open>
  \<open>(*Client).SetHost\<close> returns only when the flag already has the value asked for; when it
  has to change the flag it stops at the \<open>Lock\<close> inside \<open>Send\<close>, before any message is sent.
\<close>

lemma Client_SetHost_cases:
  "Client_SetHost ord c b w =
     (if mutex (clientH w c) then (Stuck BlockedOnMutex, w)
      else if isHost (clientH w c) = b then (Ret (), w)
      else (Stuck BlockedOnMutex,
            w\<lparr>clientH := (clientH w)(c := (clientH w c)\<lparr>mutex := True, isHost := b\<rparr>)\<rparr>))"
  apply (simp add: Client_SetHost_def prims Send_held)
  apply (cases w, cases "clientH w c")
  apply (auto simp add: fun_eq_iff)
  done


subsection \<open>Properties kept by a call\<close>

text \<open>The room and hub operations leave every client session as it is.\<close>

lemma preserves_andThen:
  "preserves Q m \<Longrightarrow> (\<And>x. preserves Q (f x)) \<Longrightarrow> preserves Q (andThen m f)"
  unfolding preserves_def
  by (auto simp: snd_andThen split: prod.splits outcome.splits)

lemma preserves_ret: "preserves Q (ret x)"
  by (simp add: preserves_def ret_def)

lemma preserves_stuck: "preserves Q (stuck s)"
  by (simp add: preserves_def stuck_def)

lemma preserves_seqs_Nil: "preserves Q (seqs [])"
  by (simp add: preserves_ret)

lemma preserves_seqs_Cons:
  "preserves Q p \<Longrightarrow> preserves Q (seqs ps) \<Longrightarrow> preserves Q (seqs (p # ps))"
  by (simp add: preserves_andThen)

lemma preserves_option:
  "preserves Q a \<Longrightarrow> (\<And>x. preserves Q (f x)) \<Longrightarrow>
   preserves Q (case v of None \<Rightarrow> a | Some x \<Rightarrow> f x)"
  by (cases v) simp_all

lemma preserves_if: "preserves Q a \<Longrightarrow> preserves Q b \<Longrightarrow> preserves Q (if t then a else b)"
  by simp

lemma preserves_frame:
  "(\<And>w. clientH (snd (p w)) = clientH w) \<Longrightarrow> preserves (\<lambda>w. P (clientH w)) p"
  by (simp add: preserves_def)

lemma preserves_forEach: "(\<And>x. preserves Q (f x)) \<Longrightarrow> preserves Q (forEach f xs)"
  by (induction xs) (simp_all add: preserves_ret preserves_andThen)

lemma Broadcast_clientH: "clientH (snd (Broadcast r m x w)) = clientH w"
  by (simp add: Broadcast_def prims)

lemma RemoveClient_clientH: "clientH (snd (RemoveClient ord r k w)) = clientH w"
  by (simp add: RemoveClient_def prims split: option.splits list.splits prod.splits)

lemma IsEmpty_clientH: "clientH (snd (IsEmpty r w)) = clientH w"
  by (simp add: IsEmpty_def prims)

lemma RemoveRoom_clientH: "clientH (snd (RemoveRoom h k w)) = clientH w"
  by (simp add: RemoveRoom_def IsEmpty_def prims split: option.splits)

lemma GetClients_clientH: "clientH (snd (GetClients ord r w)) = clientH w"
  by (simp add: GetClients_def prims)


lemma preserves_list:
  "preserves Q a \<Longrightarrow> (\<And>x xs. preserves Q (f x xs)) \<Longrightarrow>
   preserves Q (case v of [] \<Rightarrow> a | x # xs \<Rightarrow> f x xs)"
  by (cases v) simp_all

section \<open>C1: Send on a full outbound queue\<close>

text \<open>
  C1. The claim: a session whose outbound queue holds 100 pending messages and whose closed
  flag is false is closed by a call to \<open>Send\<close>. In \<open>fullWorld\<close> the session \<open>A\<close> at address 0
  is such a session, with its mutex free. \<open>Send\<close> locks \<open>c.mutex\<close>, finds the channel full
  and calls \<open>c.Close()\<close>, whose first statement locks \<open>c.mutex\<close> again: the call stops there,
  holding the mutex, and the closed flag is still false. Nothing of the close sequence has
  run: rooms and hub are unchanged. (\<open>Send_full\<close> is the same fact for every such session.)
\<close>

theorem Send_full_queue_never_closes:
  "\<not> mutex (clientH fullWorld 0) \<and> \<not> closed (clientH fullWorld 0) \<and>
   length (outbox (clientH fullWorld 0)) = 100 \<and>
   fst (Send mapOrder 0 chatA fullWorld) = Stuck BlockedOnMutex \<and>
   \<not> closed (clientH (snd (Send mapOrder 0 chatA fullWorld)) 0) \<and>
   mutex (clientH (snd (Send mapOrder 0 chatA fullWorld)) 0) \<and>
   roomH (snd (Send mapOrder 0 chatA fullWorld)) = roomH fullWorld \<and>
   hubH (snd (Send mapOrder 0 chatA fullWorld)) = hubH fullWorld"
  by (simp add: Send_def Close_def prims examples outbox_def)

section \<open>C2: who receives a broadcast\<close>




text \<open>
  C2. The claim: \<open>Broadcast(m, excludeID)\<close> delivers \<open>m\<close> to every member except the one whose
  identifier equals \<open>excludeID\<close>, and a chat message, broadcast with an empty exclusion, reaches
  every member including its sender. In \<open>pairWorld\<close> (members \<open>A\<close> and \<open>B\<close>, both able to
  take a message) the read loop of \<open>A\<close> handles a chat frame: it stamps \<open>From = A\<close> and calls
  \<open>Broadcast(&msg, "")\<close>, which puts the message on the room's channel. The next iteration of
  the broadcast loop skips the member whose identifier equals \<open>msg.From\<close>: \<open>B\<close> receives the
  message, the sender \<open>A\<close> does not.
\<close>

theorem chat_not_delivered_to_sender:
  "fst (readPump_dispatch mapOrder 0 chatFrame pairWorld) = Ret () \<and>
   buf (broadcast (roomH afterChat 0)) = [chatFrame\<lparr>From := ''A''\<rparr>] \<and>
   map fst (clients (roomH afterChat 0)) = [''A'', ''B''] \<and>
   fst (broadcastLoop_iter mapOrder 0 afterChat) = Ret () \<and>
   outbox (clientH afterChatDelivery 0) = [] \<and>
   outbox (clientH afterChatDelivery 1) = [chatFrame\<lparr>From := ''A''\<rparr>]"
  by (simp add: afterChatDelivery_def afterChat_def readPump_dispatch_def Let_def Broadcast_def
      broadcastLoop_iter_def broadcastLoop_body_def Send_def prims examples outbox_def)

section \<open>C3: the host identifier names a member\<close>

text \<open>
  The host flag of a session is written in one place, the method \<open>SetHost\<close> of \<open>Client\<close>,
  which holds the session's mutex when it writes and never gives it back (it stops in \<open>Send\<close>);
  \<open>NewClient\<close> creates the session with the flag unset. So in every world the code produces, a
  session whose host flag is set has its mutex held: \<open>flags_under_mutex\<close>. Every operation
  keeps this property.
\<close>

text \<open>A world whose sessions are all as \<open>NewClient\<close> leaves them, with the flag unset, has the property.\<close>

lemma unflagged_sessions_flags:
  "(\<And>c. \<not> isHost (clientH w c)) \<Longrightarrow> flags_under_mutex w"
  by (simp add: flags_under_mutex_def)

text \<open>
  The close sequence changes no session but \<open>c\<close>, and leaves the host flag of \<open>c\<close> as it is.
\<close>

lemma closeSequence_flags:
  "preserves (\<lambda>w. (\<forall>a. a \<noteq> c \<longrightarrow> clientH w a = H a) \<and> \<not> isHost (clientH w c))
     (closeSequence ord c cl)"
  unfolding closeSequence_def
  apply (intro preserves_seqs_Cons preserves_seqs_Nil preserves_option preserves_if
      preserves_andThen preserves_ret preserves_stuck)
          apply (simp add: preserves_def prims)
         apply (rule preserves_frame
            [where P = "\<lambda>h. (\<forall>a. a \<noteq> c \<longrightarrow> h a = H a) \<and> \<not> isHost (h c)"],
          rule Broadcast_clientH)
        apply (simp add: preserves_def prims split: option.splits)
       apply (simp add: preserves_def prims split: option.splits)
      apply (rule preserves_frame
          [where P = "\<lambda>h. (\<forall>a. a \<noteq> c \<longrightarrow> h a = H a) \<and> \<not> isHost (h c)"],
        rule RemoveClient_clientH)
     apply (rule preserves_frame
        [where P = "\<lambda>h. (\<forall>a. a \<noteq> c \<longrightarrow> h a = H a) \<and> \<not> isHost (h c)"],
      rule IsEmpty_clientH)
    apply (simp add: preserves_def prims)
   apply (rule preserves_frame
      [where P = "\<lambda>h. (\<forall>a. a \<noteq> c \<longrightarrow> h a = H a) \<and> \<not> isHost (h c)"],
    rule RemoveRoom_clientH)
  done

lemma Close_flags_aux:
  "preserves (\<lambda>w. (\<forall>a. a \<noteq> c \<longrightarrow> clientH w a = H a) \<and> \<not> isHost (clientH w c))
     (Close ord c)"
  unfolding Close_def
  apply (intro preserves_andThen preserves_if preserves_ret closeSequence_flags)
    apply (simp_all add: preserves_def prims)
  done

lemma Close_keeps_flags: "preserves flags_under_mutex (Close ord c)"
  unfolding preserves_def
proof (intro allI impI)
  fix w assume f: "flags_under_mutex w"
  show "flags_under_mutex (snd (Close ord c w))"
  proof (cases "mutex (clientH w c)")
    case True
    with f show ?thesis by (simp add: Close_held)
  next
    case False
    with f have nh: "\<not> isHost (clientH w c)" by (auto simp: flags_under_mutex_def)
    from Close_flags_aux [of c "clientH w" ord, unfolded preserves_def, rule_format, of w] nh
    have "(\<forall>a. a \<noteq> c \<longrightarrow> clientH (snd (Close ord c w)) a = clientH w a) \<and>
          \<not> isHost (clientH (snd (Close ord c w)) c)"
      by simp
    with f show ?thesis
      by (auto simp: flags_under_mutex_def)
  qed
qed

lemma Send_keeps_flags: "preserves flags_under_mutex (Send ord c msg)"
  unfolding preserves_def
proof (intro allI impI)
  fix w assume f: "flags_under_mutex w"
  show "flags_under_mutex (snd (Send ord c msg w))"
  proof (cases "mutex (clientH w c)")
    case True
    with f show ?thesis by (simp add: Send_held)
  next
    case False
    with f have nh: "\<not> isHost (clientH w c)" by (auto simp: flags_under_mutex_def)
    with f False show ?thesis
      by (auto simp: Send_def prims Close_held flags_under_mutex_def split: option.splits)
  qed
qed

lemma Client_SetHost_keeps_flags: "preserves flags_under_mutex (Client_SetHost ord c b)"
  by (auto simp: preserves_def Client_SetHost_cases flags_under_mutex_def)

lemma frame_keeps_flags:
  "(\<And>w. clientH (snd (p w)) = clientH w) \<Longrightarrow> preserves flags_under_mutex p"
  by (simp add: preserves_def flags_under_mutex_def)

lemma AddClient_keeps_flags: "preserves flags_under_mutex (AddClient ord r c)"
  unfolding AddClient_def
  apply (intro preserves_andThen preserves_if preserves_ret Client_SetHost_keeps_flags
      Send_keeps_flags)
       apply (rule frame_keeps_flags, simp add: prims)+
  done

lemma RemoveClient_keeps_flags: "preserves flags_under_mutex (RemoveClient ord r k)"
  by (rule frame_keeps_flags) (rule RemoveClient_clientH)

lemma Room_SetHost_keeps_flags: "preserves flags_under_mutex (Room_SetHost ord r k)"
  unfolding Room_SetHost_def
  apply (intro preserves_andThen preserves_if preserves_ret preserves_option
      preserves_seqs_Cons preserves_seqs_Nil preserves_forEach
      Client_SetHost_keeps_flags Send_keeps_flags)
          apply (rule frame_keeps_flags, simp add: prims)+
  done

lemma broadcastLoop_body_keeps_flags:
  "preserves flags_under_mutex (broadcastLoop_body ord r msg)"
  unfolding broadcastLoop_body_def
  apply (intro preserves_andThen preserves_forEach Send_keeps_flags)
     apply (rule frame_keeps_flags, simp add: prims)+
  done

lemma broadcastLoop_iter_keeps_flags: "preserves flags_under_mutex (broadcastLoop_iter ord r)"
  unfolding broadcastLoop_iter_def
  apply (intro preserves_andThen preserves_list preserves_stuck broadcastLoop_body_keeps_flags)
   apply (rule frame_keeps_flags, simp add: prims)+
  done

lemma readPump_dispatch_keeps_flags:
  "preserves flags_under_mutex (readPump_dispatch ord c msg)"
  unfolding readPump_dispatch_def Let_def
  apply (intro preserves_andThen preserves_if preserves_ret Send_keeps_flags)
           apply (rule frame_keeps_flags, simp add: prims Broadcast_clientH GetClients_clientH
      split: option.splits)+
  done

subsection \<open>Operations on a room as created\<close>










section \<open>C4: the host leaves\<close>













section \<open>C5: the first member of a room\<close>

text \<open>
  C5. The claim: when the insertion makes the membership size 1 and no host is set, the
  inserted member becomes host and is notified by a host-status message. In \<open>freshWorld\<close>
  the session \<open>A\<close>, as \<open>NewClient\<close> builds it, is added to the new room. \<open>AddClient\<close> sets
  \<open>r.hostID\<close> and calls \<open>client.SetHost(true)\<close>, which locks \<open>c.mutex\<close>, sets the flag and calls
  \<open>c.Send\<close>, whose first statement locks \<open>c.mutex\<close> again: the call stops there. No
  host-status message was put on the outbound channel, and \<open>AddClient\<close> has not returned: the
  room's mutex is still held for writing.
\<close>

theorem first_member_gets_no_host_status:
  "clients (roomH freshWorld 0) = [] \<and> hostID (roomH freshWorld 0) = '''' \<and>
   receptive (clientH freshWorld 0) \<and>
   fst (AddClient mapOrder 0 0 freshWorld) = Stuck BlockedOnMutex \<and>
   hostID (roomH (snd (AddClient mapOrder 0 0 freshWorld)) 0) = ''A'' \<and>
   isHost (clientH (snd (AddClient mapOrder 0 0 freshWorld)) 0) \<and>
   outbox (clientH (snd (AddClient mapOrder 0 0 freshWorld)) 0) = [] \<and>
   writer (clientMutex (roomH (snd (AddClient mapOrder 0 0 freshWorld)) 0))"
  by (simp add: AddClient_def Client_SetHost_cases prims examples outbox_def receptive_def)

section \<open>C6: explicit host reassignment\<close>

text \<open>
  C6. The claim, for a member: \<open>SetHost\<close> returns true, unsets the host flag on the previous
  host, sets it on the new host and sends every member a host-change message. In
  \<open>pairWorld\<close> (\<open>A\<close> is host, \<open>B\<close> is a member, every mutex free) \<open>SetHost("B")\<close> sets
  \<open>r.hostID\<close> and calls \<open>client.SetHost(true)\<close> on \<open>B\<close>, which sets the flag of \<open>B\<close> and stops
  at the \<open>Lock\<close> inside \<open>c.Send\<close>: the call does not return, the flag of the previous host
  \<open>A\<close> is still set, and no member has been sent anything.
\<close>

theorem Room_SetHost_member_never_returns:
  "map_of (clients (roomH pairWorld 0)) ''B'' = Some 1 \<and> hostID (roomH pairWorld 0) = ''A'' \<and>
   fst (Room_SetHost mapOrder 0 ''B'' pairWorld) = Stuck BlockedOnMutex \<and>
   hostID (roomH (snd (Room_SetHost mapOrder 0 ''B'' pairWorld)) 0) = ''B'' \<and>
   isHost (clientH (snd (Room_SetHost mapOrder 0 ''B'' pairWorld)) 1) \<and>
   isHost (clientH (snd (Room_SetHost mapOrder 0 ''B'' pairWorld)) 0) \<and>
   outbox (clientH (snd (Room_SetHost mapOrder 0 ''B'' pairWorld)) 0) = [] \<and>
   outbox (clientH (snd (Room_SetHost mapOrder 0 ''B'' pairWorld)) 1) = []"
  by (simp add: Room_SetHost_def Client_SetHost_cases prims examples outbox_def)

section \<open>C7: Close is guarded by the closed flag\<close>

text \<open>Once the close sequence has set the flag, nothing in it resets it.\<close>

lemma closeSequence_closed: "closed (clientH (snd (closeSequence ord c cl w)) c)"
proof -
  let ?Q = "\<lambda>w. closed (clientH w c)"
  have rest: "preserves ?Q (seqs [
       (case Room cl of
          None \<Rightarrow> ret ()
        | Some r \<Rightarrow> Broadcast r (user_left_msg (Client.ID cl)) ''''),
       close_send c,
       conn_Close c,
       (case Room cl of
          None \<Rightarrow> ret ()
        | Some r \<Rightarrow>
            andThen (RemoveClient ord r (Client.ID cl)) (\<lambda>_.
            andThen (IsEmpty r) (\<lambda>e.
              if e
              then andThen (readRoom r) (\<lambda>rm.
                     case hub cl of
                       None \<Rightarrow> stuck NilPanic
                     | Some h \<Rightarrow> RemoveRoom h (Room.ID rm))
              else ret ())))])"
    apply (intro preserves_seqs_Cons preserves_seqs_Nil preserves_option preserves_if
        preserves_andThen preserves_ret preserves_stuck)
          apply (rule preserves_frame [where P = "\<lambda>h. closed (h c)"], rule Broadcast_clientH)
         apply (simp add: preserves_def prims split: option.splits)
        apply (simp add: preserves_def prims split: option.splits)
       apply (rule preserves_frame [where P = "\<lambda>h. closed (h c)"], rule RemoveClient_clientH)
      apply (rule preserves_frame [where P = "\<lambda>h. closed (h c)"], rule IsEmpty_clientH)
     apply (simp add: preserves_def prims)
    apply (rule preserves_frame [where P = "\<lambda>h. closed (h c)"], rule RemoveRoom_clientH)
    done
  let ?w1 = "w\<lparr>clientH := (clientH w)(c := (clientH w c)\<lparr>closed := True\<rparr>)\<rparr>"
  have "closeSequence ord c cl w = seqs (tl [updClient c (\<lambda>x. x\<lparr>closed := True\<rparr>),
       (case Room cl of
          None \<Rightarrow> ret ()
        | Some r \<Rightarrow> Broadcast r (user_left_msg (Client.ID cl)) ''''),
       close_send c,
       conn_Close c,
       (case Room cl of
          None \<Rightarrow> ret ()
        | Some r \<Rightarrow>
            andThen (RemoveClient ord r (Client.ID cl)) (\<lambda>_.
            andThen (IsEmpty r) (\<lambda>e.
              if e
              then andThen (readRoom r) (\<lambda>rm.
                     case hub cl of
                       None \<Rightarrow> stuck NilPanic
                     | Some h \<Rightarrow> RemoveRoom h (Room.ID rm))
              else ret ())))]) ?w1"
    by (simp only: closeSequence_def seqs.simps(2) andThen_def updClient_def prod.case
        outcome.case list.sel)
  moreover have "closed (clientH ?w1 c)" by simp
  ultimately show ?thesis
    using rest [unfolded preserves_def, rule_format, of ?w1] by (simp only: list.sel)
qed

lemma Close_when_closed:
  "\<not> mutex (clientH w c) \<Longrightarrow> closed (clientH w c) \<Longrightarrow> Close ord c w = (Ret (), w)"
  apply (simp add: Close_def prims)
  apply (cases w, cases "clientH w c")
  apply (auto simp: fun_eq_iff)
  done

lemma Close_returns_closed:
  assumes "Close ord c w = (Ret (), w')"
  shows "closed (clientH w' c) \<and> \<not> mutex (clientH w' c)"
proof -
  from andThen_Ret [OF assms [unfolded Close_def]]
  obtain w1 where l: "Lock c w = (Ret (), w1)"
    and r1: "andThen (readClient c) (\<lambda>cl.
     andThen (if closed cl then ret () else closeSequence ord c cl) (\<lambda>_.
     Unlock c)) w1 = (Ret (), w')"
    by auto
  from andThen_Ret [OF r1]
  have r2: "andThen (if closed (clientH w1 c) then ret () else closeSequence ord c (clientH w1 c))
         (\<lambda>_. Unlock c) w1 = (Ret (), w')"
    by (auto simp: readClient_def)
  from andThen_Ret [OF r2]
  obtain w2 where body: "(if closed (clientH w1 c) then ret ()
                          else closeSequence ord c (clientH w1 c)) w1 = (Ret (), w2)"
    and u: "Unlock c w2 = (Ret (), w')"
    by auto
  have "closed (clientH w2 c)"
  proof (cases "closed (clientH w1 c)")
    case True
    with body show ?thesis by (simp add: ret_def)
  next
    case False
    with body have "w2 = snd (closeSequence ord c (clientH w1 c) w1)" by simp
    then show ?thesis by (simp add: closeSequence_closed)
  qed
  with u show ?thesis by (auto simp: prims)
qed

text \<open>
  C7. \<open>Close\<close> on a session that is already closed (its mutex free) returns and leaves the
  whole world (sessions, rooms, hub) as it was: the close sequence does not run. And a
  call of \<open>Close\<close> that returns leaves the session closed, so that the next call of \<open>Close\<close>
  returns with the world unchanged: the close sequence runs at most once.
\<close>

theorem Close_idempotent:
  "(\<not> mutex (clientH w c) \<and> closed (clientH w c) \<longrightarrow> Close ord c w = (Ret (), w)) \<and>
   (Close ord c w = (Ret (), w') \<longrightarrow>
      closed (clientH w' c) \<and> Close ord c w' = (Ret (), w'))"
  using Close_when_closed Close_returns_closed by blast

theorem Close_idempotent_witness:
  "\<not> closed (clientH pairWorld 0) \<and>
   Close mapOrder 0 pairWorld = (Ret (), snd (Close mapOrder 0 pairWorld)) \<and>
   map fst (clients (roomH (snd (Close mapOrder 0 pairWorld)) 0)) = [''B''] \<and>
   closed (clientH (snd (Close mapOrder 0 pairWorld)) 0) \<and>
   \<not> mutex (clientH (snd (Close mapOrder 0 pairWorld)) 0) \<and>
   Close mapOrder 0 (snd (Close mapOrder 0 pairWorld)) =
     (Ret (), snd (Close mapOrder 0 pairWorld))"
proof -
  have e: "fst (Close mapOrder 0 pairWorld) = Ret () \<and>
      \<not> mutex (clientH (snd (Close mapOrder 0 pairWorld)) 0) \<and>
      map fst (clients (roomH (snd (Close mapOrder 0 pairWorld)) 0)) = [''B'']"
    by (simp add: Close_def closeSequence_def Broadcast_def RemoveClient_def IsEmpty_def
        RemoveRoom_def prims examples user_left_msg_def host_change_new_def)
  then have r: "Close mapOrder 0 pairWorld = (Ret (), snd (Close mapOrder 0 pairWorld))"
    by (metis prod.collapse)
  have p: "\<not> closed (clientH pairWorld 0)" by (simp add: examples)
  from Close_idempotent [where w = pairWorld and c = 0 and ord = mapOrder
      and w' = "snd (Close mapOrder 0 pairWorld)"] r
  have c: "closed (clientH (snd (Close mapOrder 0 pairWorld)) 0)" by blast
  from Close_idempotent [where w = "snd (Close mapOrder 0 pairWorld)" and c = 0
      and ord = mapOrder] c e
  have "Close mapOrder 0 (snd (Close mapOrder 0 pairWorld)) =
     (Ret (), snd (Close mapOrder 0 pairWorld))" by blast
  with p r e c show ?thesis by blast
qed

section \<open>C8: pruning empty rooms\<close>

lemma IsEmpty_value:
  "\<not> writer (clientMutex (roomH w r)) \<Longrightarrow> IsEmpty r w = (Ret (clients (roomH w r) = []), w)"
  by (simp add: IsEmpty_def prims)

lemma GetActiveRooms_value:
  "\<not> writer (roomsMutex (hubH w h)) \<Longrightarrow>
   GetActiveRooms ord h w = (Ret (map fst (ord (rooms (hubH w h)))), w)"
  by (simp add: GetActiveRooms_def prims)

lemma RemoveRoom_effect:
  assumes "roomsMutex (hubH w h) = rw_free"
    and "\<And>room. map_of (rooms (hubH w h)) roomID = Some room \<Longrightarrow>
           \<not> writer (clientMutex (roomH w room))"
  shows "RemoveRoom h roomID w =
     (Ret (),
      if (\<exists>room. map_of (rooms (hubH w h)) roomID = Some room \<and> clients (roomH w room) = [])
      then w\<lparr>hubH := (hubH w)(h := (hubH w h)\<lparr>rooms := AList.delete roomID (rooms (hubH w h))\<rparr>)\<rparr>
      else w)"
proof (cases "map_of (rooms (hubH w h)) roomID")
  case None
  with assms(1) show ?thesis
    apply (simp add: RemoveRoom_def prims rw_free_def)
    apply (cases w, cases "hubH w h")
    apply (auto simp: fun_eq_iff)
    done
next
  case (Some room)
  then have nw: "\<not> writer (clientMutex (roomH w room))" by (rule assms(2))
  show ?thesis
    using assms(1) Some nw
    apply (simp add: RemoveRoom_def Hub_Lock_def Hub_Unlock_def andThen_def readHub_def
        updHub_def ret_def IsEmpty_value rw_free_def)
    apply (cases w, cases "hubH w h")
    apply (auto simp: fun_eq_iff)
    done
qed

text \<open>The close sequence of a room's only member, with every mutex free.\<close>

lemma Close_last_member:
  assumes c: "\<not> mutex (clientH w c)" "\<not> closed (clientH w c)"
      "Room (clientH w c) = Some r" "hub (clientH w c) = Some h"
      "send (clientH w c) = Some ch" "\<not> chclosed ch" "conn (clientH w c) = Some b"
    and rm: "clients (roomH w r) = [(Client.ID (clientH w c), c)]"
      "clientMutex (roomH w r) = rw_free"
      "\<not> chclosed (broadcast (roomH w r))"
      "length (buf (broadcast (roomH w r))) < cap (broadcast (roomH w r))"
    and hb: "roomsMutex (hubH w h) = rw_free"
      "map_of (rooms (hubH w h)) (Room.ID (roomH w r)) = Some r"
  shows "fst (Close ord c w) = Ret () \<and>
         \<not> writer (roomsMutex (hubH (snd (Close ord c w)) h)) \<and>
         rooms (hubH (snd (Close ord c w)) h) =
           AList.delete (Room.ID (roomH w r)) (rooms (hubH w h))"
  using assms
  by (simp add: Close_def closeSequence_def Broadcast_def RemoveClient_def IsEmpty_def
      RemoveRoom_def prims rw_free_def)

text \<open>
  C8. First part: with the hub's mutex free (and the mutex of the room registered under
  \<open>roomID\<close>, if there is one, not held for writing), \<open>RemoveRoom\<close> returns; when a room is
  registered under \<open>roomID\<close> and has no members the registry loses that key and nothing
  else changes; otherwise (a registered room with members, or no room under that key) the
  whole world is unchanged. Second part: a session \<open>c\<close> that is the only member of its room
  \<open>r\<close>, the room being registered in the session's hub \<open>g\<close> under its identifier, every
  mutex free and the session's channel and connection open: \<open>Close\<close> returns, and afterwards
  \<open>GetActiveRooms\<close> returns a list that does not contain the room's identifier.
\<close>

theorem RemoveRoom_iff_registered_and_empty:
  "(roomsMutex (hubH w h) = rw_free \<and>
    (\<forall>room. map_of (rooms (hubH w h)) roomID = Some room \<longrightarrow>
            \<not> writer (clientMutex (roomH w room)))
    \<longrightarrow>
      RemoveRoom h roomID w =
        (Ret (),
         if (\<exists>room. map_of (rooms (hubH w h)) roomID = Some room \<and> clients (roomH w room) = [])
         then w\<lparr>hubH := (hubH w)(h := (hubH w h)\<lparr>rooms := AList.delete roomID (rooms (hubH w h))\<rparr>)\<rparr>
         else w) \<and>
      map_of (AList.delete roomID (rooms (hubH w h))) roomID = None) \<and>
   (\<not> mutex (clientH v c) \<and> \<not> closed (clientH v c) \<and>
    Room (clientH v c) = Some r \<and> hub (clientH v c) = Some g \<and>
    send (clientH v c) = Some ch \<and> \<not> chclosed ch \<and> conn (clientH v c) = Some b \<and>
    clients (roomH v r) = [(Client.ID (clientH v c), c)] \<and>
    clientMutex (roomH v r) = rw_free \<and>
    \<not> chclosed (broadcast (roomH v r)) \<and>
    length (buf (broadcast (roomH v r))) < cap (broadcast (roomH v r)) \<and>
    roomsMutex (hubH v g) = rw_free \<and>
    map_of (rooms (hubH v g)) (Room.ID (roomH v r)) = Some r \<and>
    order_ok ord'
    \<longrightarrow>
      fst (Close ord c v) = Ret () \<and>
      (case GetActiveRooms ord' g (snd (Close ord c v)) of
         (Ret ids, _) \<Rightarrow> Room.ID (roomH v r) \<notin> set ids
       | (Stuck _, _) \<Rightarrow> False))"
proof (intro conjI impI)
  assume a: "roomsMutex (hubH w h) = rw_free \<and>
    (\<forall>room. map_of (rooms (hubH w h)) roomID = Some room \<longrightarrow>
            \<not> writer (clientMutex (roomH w room)))"
  then show "RemoveRoom h roomID w =
        (Ret (),
         if (\<exists>room. map_of (rooms (hubH w h)) roomID = Some room \<and> clients (roomH w room) = [])
         then w\<lparr>hubH := (hubH w)(h := (hubH w h)\<lparr>rooms := AList.delete roomID (rooms (hubH w h))\<rparr>)\<rparr>
         else w)"
    by (intro RemoveRoom_effect) auto
  show "map_of (AList.delete roomID (rooms (hubH w h))) roomID = None"
    by (simp add: delete_conv)
next
  assume a: "\<not> mutex (clientH v c) \<and> \<not> closed (clientH v c) \<and>
    Room (clientH v c) = Some r \<and> hub (clientH v c) = Some g \<and>
    send (clientH v c) = Some ch \<and> \<not> chclosed ch \<and> conn (clientH v c) = Some b \<and>
    clients (roomH v r) = [(Client.ID (clientH v c), c)] \<and>
    clientMutex (roomH v r) = rw_free \<and>
    \<not> chclosed (broadcast (roomH v r)) \<and>
    length (buf (broadcast (roomH v r))) < cap (broadcast (roomH v r)) \<and>
    roomsMutex (hubH v g) = rw_free \<and>
    map_of (rooms (hubH v g)) (Room.ID (roomH v r)) = Some r \<and>
    order_ok ord'"
  then have cl: "fst (Close ord c v) = Ret () \<and>
         \<not> writer (roomsMutex (hubH (snd (Close ord c v)) g)) \<and>
         rooms (hubH (snd (Close ord c v)) g) =
           AList.delete (Room.ID (roomH v r)) (rooms (hubH v g))"
    by (intro Close_last_member) auto
  then show "fst (Close ord c v) = Ret ()" by simp
  from a have "set (ord' (AList.delete (Room.ID (roomH v r)) (rooms (hubH v g))))
      = set (AList.delete (Room.ID (roomH v r)) (rooms (hubH v g)))"
    by (simp add: order_ok_set)
  then have "Room.ID (roomH v r)
      \<notin> fst ` set (ord' (AList.delete (Room.ID (roomH v r)) (rooms (hubH v g))))"
    by (simp add: delete_notin_dom)
  with cl show "case GetActiveRooms ord' g (snd (Close ord c v)) of
         (Ret ids, _) \<Rightarrow> Room.ID (roomH v r) \<notin> set ids
       | (Stuck _, _) \<Rightarrow> False"
    by (simp add: GetActiveRooms_value)
qed

theorem RemoveRoom_iff_registered_and_empty_witness:
  "(RemoveRoom 0 ''r1'' freshWorld =
      (Ret (),
       if (\<exists>room. map_of (rooms (hubH freshWorld 0)) ''r1'' = Some room \<and>
                  clients (roomH freshWorld room) = [])
       then freshWorld\<lparr>hubH := (hubH freshWorld)(0 := (hubH freshWorld 0)\<lparr>
              rooms := AList.delete ''r1'' (rooms (hubH freshWorld 0))\<rparr>)\<rparr>
       else freshWorld) \<and>
    map_of (AList.delete ''r1'' (rooms (hubH freshWorld 0))) ''r1'' = None) \<and>
   (fst (Close mapOrder 0 soloWorld) = Ret () \<and>
    (case GetActiveRooms mapOrder 0 (snd (Close mapOrder 0 soloWorld)) of
       (Ret ids, _) \<Rightarrow> Room.ID (roomH soloWorld 0) \<notin> set ids
     | (Stuck _, _) \<Rightarrow> False)) \<and>
   map_of (rooms (hubH freshWorld 0)) ''r1'' = Some 0 \<and> clients (roomH freshWorld 0) = [] \<and>
   rooms (hubH (snd (RemoveRoom 0 ''r1'' freshWorld)) 0) = [] \<and>
   Room.ID (roomH soloWorld 0) = ''r1'' \<and>
   clients (roomH soloWorld 0) = [(''A'', 0)] \<and>
   snd (RemoveRoom 0 ''r1'' soloWorld) = soloWorld \<and>
   snd (RemoveRoom 0 ''r2'' soloWorld) = soloWorld \<and>
   fst (GetActiveRooms mapOrder 0 soloWorld) = Ret [''r1''] \<and>
   fst (GetActiveRooms mapOrder 0 (snd (Close mapOrder 0 soloWorld))) = Ret []"
proof -
  note T = RemoveRoom_iff_registered_and_empty [where w = freshWorld and h = 0
      and roomID = "''r1''" and v = soloWorld and c = 0 and r = 0 and g = 0
      and ch = "make_chan 100" and b = True and ord' = mapOrder and ord = mapOrder]
  have hA: "roomsMutex (hubH freshWorld 0) = rw_free \<and>
    (\<forall>room. map_of (rooms (hubH freshWorld 0)) ''r1'' = Some room \<longrightarrow>
            \<not> writer (clientMutex (roomH freshWorld room)))"
    by (simp add: examples)
  have hB: "\<not> mutex (clientH soloWorld 0) \<and> \<not> closed (clientH soloWorld 0) \<and>
    Room (clientH soloWorld 0) = Some 0 \<and> hub (clientH soloWorld 0) = Some 0 \<and>
    send (clientH soloWorld 0) = Some (make_chan 100) \<and> \<not> chclosed (make_chan 100) \<and>
    conn (clientH soloWorld 0) = Some True \<and>
    clients (roomH soloWorld 0) = [(Client.ID (clientH soloWorld 0), 0)] \<and>
    clientMutex (roomH soloWorld 0) = rw_free \<and>
    \<not> chclosed (broadcast (roomH soloWorld 0)) \<and>
    length (buf (broadcast (roomH soloWorld 0))) < cap (broadcast (roomH soloWorld 0)) \<and>
    roomsMutex (hubH soloWorld 0) = rw_free \<and>
    map_of (rooms (hubH soloWorld 0)) (Room.ID (roomH soloWorld 0)) = Some 0 \<and>
    order_ok mapOrder"
    by (simp add: order_ok_mapOrder)
       (simp add: blankWorld_def soloWorld_def session_def NewRoom_def NewHub_def make_chan_def
          rw_free_def)
  have E: "map_of (rooms (hubH freshWorld 0)) ''r1'' = Some 0 \<and> clients (roomH freshWorld 0) = [] \<and>
   rooms (hubH (snd (RemoveRoom 0 ''r1'' freshWorld)) 0) = [] \<and>
   Room.ID (roomH soloWorld 0) = ''r1'' \<and>
   clients (roomH soloWorld 0) = [(''A'', 0)] \<and>
   snd (RemoveRoom 0 ''r1'' soloWorld) = soloWorld \<and>
   snd (RemoveRoom 0 ''r2'' soloWorld) = soloWorld \<and>
   fst (GetActiveRooms mapOrder 0 soloWorld) = Ret [''r1''] \<and>
   fst (GetActiveRooms mapOrder 0 (snd (Close mapOrder 0 soloWorld))) = Ret []"
    by (simp add: GetActiveRooms_def Close_def closeSequence_def Broadcast_def RemoveClient_def
        IsEmpty_def RemoveRoom_def prims examples)
  show ?thesis
    by (rule conjI [OF T [THEN conjunct1, THEN mp, OF hA]
               conjI [OF T [THEN conjunct2, THEN mp, OF hB] E]])
qed

section \<open>C10: the sender identifier of relayed messages\<close>

lemma dispatch_ignores_From:
  "readPump_dispatch ord c (msg\<lparr>From := f\<rparr>) = readPump_dispatch ord c msg"
  by (rule ext) (simp add: readPump_dispatch_def)

lemma dispatch_forwards:
  "\<exists>new. buf (broadcast (roomH (snd (readPump_dispatch ord c msg w)) r)) =
            buf (broadcast (roomH w r)) @ new
      \<and> (\<forall>m \<in> set new. From m = Client.ID (clientH w c))"
proof (cases "Room (clientH w c)")
  case None
  then show ?thesis
    by (simp add: readPump_dispatch_def Let_def prims)
next
  case (Some rr)
  consider (relay) "Type msg = ''offer'' \<or> Type msg = ''answer'' \<or> Type msg = ''ice-candidate''"
    | (chat) "\<not> (Type msg = ''offer'' \<or> Type msg = ''answer'' \<or> Type msg = ''ice-candidate'')"
        "Type msg = ''chat''"
    | (join) "\<not> (Type msg = ''offer'' \<or> Type msg = ''answer'' \<or> Type msg = ''ice-candidate'')"
        "Type msg \<noteq> ''chat''" "Type msg = ''join''"
    | (other) "\<not> (Type msg = ''offer'' \<or> Type msg = ''answer'' \<or> Type msg = ''ice-candidate'')"
        "Type msg \<noteq> ''chat''" "Type msg \<noteq> ''join''"
    by blast
  then show ?thesis
  proof cases
    case relay
    with Some show ?thesis
      by (simp add: readPump_dispatch_def Let_def Broadcast_def prims)
  next
    case chat
    with Some show ?thesis
      by (simp add: readPump_dispatch_def Let_def Broadcast_def prims)
  next
    case join
    with Some show ?thesis
      by (simp add: readPump_dispatch_def Let_def Broadcast_def GetClients_def prims Send_roomH
          user_joined_msg_def)
  next
    case other
    with Some show ?thesis
      by (simp add: readPump_dispatch_def Let_def prims)
  qed
qed

text \<open>
  C10. \<open>readPump_dispatch\<close> is what the read loop does with a decoded frame. Whatever
  \<open>from\<close> value the frame carries, the outcome and the resulting world are the same: the
  field is overwritten with the session's identifier before the switch on the type. And
  forwarding only appends to broadcast channels: in every room, the messages the call
  appended to the broadcast channel all carry the session's identifier as \<open>From\<close>. (The
  user-list reply to a join is not forwarded: it is sent to the session itself.)
\<close>

theorem dispatch_stamps_sender:
  "readPump_dispatch ord c (msg\<lparr>From := f\<rparr>) w = readPump_dispatch ord c msg w \<and>
   (\<exists>new. buf (broadcast (roomH (snd (readPump_dispatch ord c msg w)) r)) =
            buf (broadcast (roomH w r)) @ new
      \<and> (\<forall>m \<in> set new. From m = Client.ID (clientH w c)))"
  using dispatch_forwards by (simp add: dispatch_ignores_From)

theorem dispatch_stamps_sender_witness:
  "(readPump_dispatch mapOrder 0 (offerForged\<lparr>From := ''A''\<rparr>) pairWorld =
      readPump_dispatch mapOrder 0 offerForged pairWorld \<and>
    (\<exists>new. buf (broadcast (roomH (snd (readPump_dispatch mapOrder 0 offerForged pairWorld)) 0)) =
            buf (broadcast (roomH pairWorld 0)) @ new
      \<and> (\<forall>m \<in> set new. From m = Client.ID (clientH pairWorld 0)))) \<and>
   From offerForged = ''B'' \<and> Client.ID (clientH pairWorld 0) = ''A'' \<and>
   fst (readPump_dispatch mapOrder 0 offerForged pairWorld) = Ret () \<and>
   buf (broadcast (roomH (snd (readPump_dispatch mapOrder 0 offerForged pairWorld)) 0)) =
     [offerForged\<lparr>From := ''A''\<rparr>]"
proof (rule conjI)
  show "readPump_dispatch mapOrder 0 (offerForged\<lparr>From := ''A''\<rparr>) pairWorld =
      readPump_dispatch mapOrder 0 offerForged pairWorld \<and>
    (\<exists>new. buf (broadcast (roomH (snd (readPump_dispatch mapOrder 0 offerForged pairWorld)) 0)) =
            buf (broadcast (roomH pairWorld 0)) @ new
      \<and> (\<forall>m \<in> set new. From m = Client.ID (clientH pairWorld 0)))"
    by (rule dispatch_stamps_sender)
  show "From offerForged = ''B'' \<and> Client.ID (clientH pairWorld 0) = ''A'' \<and>
   fst (readPump_dispatch mapOrder 0 offerForged pairWorld) = Ret () \<and>
   buf (broadcast (roomH (snd (readPump_dispatch mapOrder 0 offerForged pairWorld)) 0)) =
     [offerForged\<lparr>From := ''A''\<rparr>]"
    by (simp add: readPump_dispatch_def Let_def Broadcast_def prims examples)
qed

end
